theory Spec2Isabelle
  imports Main
begin

section \<open>Data model (myapp/models.py)\<close>

text \<open>
  The exceptions a view can let escape: the two lookup failures of
  \<^verbatim>\<open>AppUser.objects.get\<close>, the violation of the \<^verbatim>\<open>unique=True\<close> constraint on
  \<^verbatim>\<open>email\<close>, a stored password that names the hashing algorithm but cannot be decoded,
  a mail address with a line break, a mail transport failure (\<^verbatim>\<open>fail_silently=False\<close>)
  and a failure inside the tokenizer or the classifier.
\<close>

datatype error = DoesNotExist | MultipleObjectsReturned | IntegrityError
  | ValueError | BadHeaderError | SMTPException | RuntimeError

text \<open>
  A row of \<^verbatim>\<open>AppUser\<close>. \<^verbatim>\<open>pk\<close> is the automatic primary key: \<open>None\<close> on an instance
  that was never saved. \<^verbatim>\<open>verification_code\<close> is nullable. The column length limits
  (\<^verbatim>\<open>max_length\<close>) are not modelled: whether they are enforced is a matter of the database
  backend, which is configured outside the source files.
\<close>

record app_user =
  pk :: "nat option"
  first_name :: string
  last_name :: string
  email :: string
  password :: string
  verification_code :: "string option"

text \<open>
  The session dictionary. The views use four keys only; a key that is absent is \<open>None\<close>.
\<close>

record session =
  user_email :: "string option"
  authenticated_user :: "string option"
  reset_email :: "string option"
  verified_reset :: "bool option"

definition empty_session :: session where
  "empty_session = \<lparr>user_email = None, authenticated_user = None,
     reset_email = None, verified_reset = None\<rparr>"

text \<open>
  A message handed to \<^verbatim>\<open>send_mail\<close>: which of the two texts it is, and the values the
  f-string interpolates (\<^verbatim>\<open>user.first_name\<close>, \<^verbatim>\<open>user.verification_code\<close>), the sender
  and the recipient list.
\<close>

datatype mail_kind = LoginCodeMail | ResetCodeMail

record mail =
  mail_kind :: mail_kind
  mail_first_name :: string
  mail_code :: "string option"
  mail_from :: string
  mail_to :: "string list"

text \<open>
  What a request can read and change: the user table, the session of the browser that
  sends the request, and the messages handed to the mail transport so far.
\<close>

record world =
  table :: "app_user list"
  session :: session
  outbox :: "mail list"

record request =
  req_method :: string
  req_POST :: "string \<rightharpoonup> string"

text \<open>
  What a request draws from outside the program: the random choices of
  \<^verbatim>\<open>random.randint\<close> and of the password hasher (one field per call site), and whether
  the mail transport accepts the message.
\<close>

record env =
  code_draw :: nat
  salt_view :: string
  salt_save :: string
  unusable_suffix :: string
  smtp_ok :: bool

datatype response =
    Render string "(string \<times> string option) list"
  | Redirect string

type_synonym result = "(error + response) \<times> world"

section \<open>Python and library primitives\<close>

text \<open>Truth value of an optional string or flag, as \<^verbatim>\<open>not x\<close> tests it.\<close>

definition falsy :: "string option \<Rightarrow> bool" where
  "falsy x = (x = None \<or> x = Some [])"

definition falsy_flag :: "bool option \<Rightarrow> bool" where
  "falsy_flag x = (x = None \<or> x = Some False)"

definition startswith :: "string \<Rightarrow> string \<Rightarrow> bool" where
  "startswith s p = (take (length p) s = p)"

text \<open>\<^verbatim>\<open>str\<close> of an integer: decimal digits, a minus sign for a negative number.\<close>

definition digit_char :: "nat \<Rightarrow> char" where
  "digit_char d = char_of (48 + d)"

fun digits :: "nat \<Rightarrow> string" where
  "digits n = (if n < 10 then [digit_char n] else digits (n div 10) @ [digit_char (n mod 10)])"

declare digits.simps [simp del]

definition py_str :: "int \<Rightarrow> string" where
  "py_str i = (if i < 0 then CHR ''-'' # digits (nat (- i)) else digits (nat i))"

text \<open>
  \<^verbatim>\<open>random.randint(a, b)\<close> returns \<open>a\<close> plus a number below \<open>b - a + 1\<close>; the draw is
  the number the generator produced, reduced to that range.
\<close>

definition randint :: "int \<Rightarrow> int \<Rightarrow> nat \<Rightarrow> int" where
  "randint a b draw = a + int (draw mod nat (b - a + 1))"

text \<open>
  The password hasher configured as default (Django's \<^verbatim>\<open>PBKDF2PasswordHasher\<close>) is a
  parameter: \<open>hasher_encode H raw salt\<close> is the encoded password, \<open>hasher_verify H raw encoded\<close>
  identifies the algorithm of \<open>encoded\<close> and checks \<open>raw\<close> against it: the answer is
  \<open>False\<close> when no algorithm is recognised, and the check raises \<^verbatim>\<open>ValueError\<close> when the
  algorithm is recognised but the rest cannot be decoded.
  \<open>pbkdf2_hasher\<close> states what the views rely on: an encoded password starts with the
  algorithm name, and verification of an encoded password raises nothing and accepts the
  encoded password's own raw password and no other.
\<close>

record hasher =
  hasher_encode :: "string \<Rightarrow> string \<Rightarrow> string"
  hasher_verify :: "string \<Rightarrow> string \<Rightarrow> error + bool"

definition pbkdf2_hasher :: "hasher \<Rightarrow> bool" where
  "pbkdf2_hasher H =
     ((\<forall>p s. startswith (hasher_encode H p s) ''pbkdf2_sha256$'') \<and>
      (\<forall>p q s. hasher_verify H q (hasher_encode H p s) = Inr (q = p)))"

text \<open>
  \<^verbatim>\<open>django.contrib.auth.hashers.make_password\<close>: \<^verbatim>\<open>None\<close> gives an unusable password,
  \<^verbatim>\<open>!\<close> followed by random characters; a string is encoded with a fresh salt.
  \<^verbatim>\<open>check_password\<close> refuses \<^verbatim>\<open>None\<close> and an unusable stored value, and otherwise
  answers, or raises, as the hasher does.
\<close>

definition make_password :: "hasher \<Rightarrow> string \<Rightarrow> string \<Rightarrow> string option \<Rightarrow> string" where
  "make_password H salt suffix raw =
     (case raw of None \<Rightarrow> CHR ''!'' # suffix | Some p \<Rightarrow> hasher_encode H p salt)"

definition is_password_usable :: "string \<Rightarrow> bool" where
  "is_password_usable encoded = (\<not> startswith encoded ''!'')"

definition hashers_check_password :: "hasher \<Rightarrow> string option \<Rightarrow> string \<Rightarrow> error + bool" where
  "hashers_check_password H raw encoded =
     (case raw of None \<Rightarrow> Inr False
      | Some p \<Rightarrow>
          if \<not> is_password_usable encoded then Inr False else hasher_verify H p encoded)"

text \<open>
  The query set. A lookup \<^verbatim>\<open>email=x\<close> with \<open>x\<close> \<^verbatim>\<open>None\<close> asks for a null email, which
  no row has; a lookup \<^verbatim>\<open>verification_code=c\<close> with \<open>c\<close> \<^verbatim>\<open>None\<close> asks for the rows
  whose code is null. \<^verbatim>\<open>get\<close> raises unless exactly one row matches.
\<close>

definition email_is :: "string option \<Rightarrow> app_user \<Rightarrow> bool" where
  "email_is x u = (case x of None \<Rightarrow> False | Some e \<Rightarrow> email u = e)"

definition code_is :: "string option \<Rightarrow> app_user \<Rightarrow> bool" where
  "code_is c u = (verification_code u = c)"

definition objects_get :: "(app_user \<Rightarrow> bool) \<Rightarrow> app_user list \<Rightarrow> error + app_user" where
  "objects_get P tbl =
     (case filter P tbl of
        [] \<Rightarrow> Inl DoesNotExist
      | [u] \<Rightarrow> Inr u
      | _ \<Rightarrow> Inl MultipleObjectsReturned)"

definition objects_exists :: "(app_user \<Rightarrow> bool) \<Rightarrow> app_user list \<Rightarrow> bool" where
  "objects_exists P tbl = (filter P tbl \<noteq> [])"

text \<open>
  \<^verbatim>\<open>models.Model.save\<close>: the unique constraint on \<^verbatim>\<open>email\<close> is checked against the
  other rows; an instance with a primary key replaces the row that has this key (and is
  inserted when there is none), an instance without one is inserted under a fresh key.
\<close>

definition next_pk :: "app_user list \<Rightarrow> nat" where
  "next_pk tbl = Suc (fold (\<lambda>r m. case pk r of None \<Rightarrow> m | Some i \<Rightarrow> max i m) tbl 0)"

definition Model_save :: "app_user \<Rightarrow> app_user list \<Rightarrow> error + (app_user \<times> app_user list)" where
  "Model_save self tbl =
     (if \<exists>r \<in> set tbl. email r = email self \<and> pk r \<noteq> pk self then Inl IntegrityError
      else case pk self of
        None \<Rightarrow> (let self' = self\<lparr>pk := Some (next_pk tbl)\<rparr> in Inr (self', tbl @ [self']))
      | Some i \<Rightarrow>
          if \<exists>r \<in> set tbl. pk r = Some i
          then Inr (self, map (\<lambda>r. if pk r = Some i then self else r) tbl)
          else Inr (self, tbl @ [self]))"

text \<open>
  \<^verbatim>\<open>send_mail(..., fail_silently=False)\<close>. Building the message refuses a header value
  with a line break (\<^verbatim>\<open>BadHeaderError\<close>); the two subjects are fixed texts without one,
  so the sender and the recipients decide. A message that is built is handed to the
  transport, which accepts it or raises.
\<close>

definition has_line_break :: "string \<Rightarrow> bool" where
  "has_line_break s = (CHR 0x0A \<in> set s \<or> CHR 0x0D \<in> set s)"

definition bad_header :: "mail \<Rightarrow> bool" where
  "bad_header m = (has_line_break (mail_from m) \<or> (\<exists>a \<in> set (mail_to m). has_line_break a))"

definition send_mail :: "env \<Rightarrow> mail \<Rightarrow> world \<Rightarrow> error + world" where
  "send_mail en m w =
     (if bad_header m then Inl BadHeaderError
      else if smtp_ok en then Inr (w\<lparr>outbox := outbox w @ [m]\<rparr>)
      else Inl SMTPException)"

section \<open>The model class \<^verbatim>\<open>AppUser\<close>\<close>

definition AppUser_save :: "hasher \<Rightarrow> env \<Rightarrow> app_user \<Rightarrow> app_user list
    \<Rightarrow> error + (app_user \<times> app_user list)" where
  "AppUser_save H en self tbl =
     (let self1 =
        (if \<not> startswith (password self) ''pbkdf2_sha256$''
         then self\<lparr>password :=
                make_password H (salt_save en) (unusable_suffix en) (Some (password self))\<rparr>
         else self)
      in Model_save self1 tbl)"

definition AppUser_check_password :: "hasher \<Rightarrow> app_user \<Rightarrow> string option \<Rightarrow> error + bool" where
  "AppUser_check_password H self raw_password =
     hashers_check_password H raw_password (password self)"

definition generate_verification_code :: "hasher \<Rightarrow> env \<Rightarrow> app_user \<Rightarrow> app_user list
    \<Rightarrow> error + (app_user \<times> app_user list)" where
  "generate_verification_code H en self tbl =
     AppUser_save H en
       (self\<lparr>verification_code := Some (py_str (randint 100000 999999 (code_draw en)))\<rparr>) tbl"

section \<open>The views (myapp/views.py)\<close>

text \<open>
  The messages of the templates. A character outside ASCII is written by its code point
  (\<open>0xF1\<close> n with tilde, \<open>0xF3\<close> o with acute accent, \<open>0xE1\<close> a with acute accent).
\<close>

definition msg_correo_no_registrado :: string where
  "msg_correo_no_registrado = ''Correo no registrado.''"

definition msg_contrasena_incorrecta :: string where
  "msg_contrasena_incorrecta = ''Contrase'' @ [CHR 0xF1] @ ''a incorrecta.''"

definition msg_codigo_incorrecto :: string where
  "msg_codigo_incorrecto = ''C'' @ [CHR 0xF3] @ ''digo incorrecto.''"

definition msg_campos_obligatorios :: string where
  "msg_campos_obligatorios = ''Todos los campos son obligatorios''"

definition msg_correo_en_uso :: string where
  "msg_correo_en_uso = ''El correo ya est'' @ [CHR 0xE1] @ '' en uso''"

definition render_error :: "string \<Rightarrow> string \<Rightarrow> response" where
  "render_error template msg = Render template [(''error'', Some msg)]"

definition code_mail :: "mail_kind \<Rightarrow> app_user \<Rightarrow> mail" where
  "code_mail k user = \<lparr>mail_kind = k, mail_first_name = first_name user,
     mail_code = verification_code user, mail_from = email user, mail_to = [email user]\<rparr>"

definition welcome_view :: "request \<Rightarrow> world \<Rightarrow> result" where
  "welcome_view req w = (Inr (Render ''welcome.html'' []), w)"

definition login_view :: "hasher \<Rightarrow> env \<Rightarrow> request \<Rightarrow> world \<Rightarrow> result" where
  "login_view H en req w =
     (if req_method req = ''POST'' then
        (case objects_get (email_is (req_POST req ''email'')) (table w) of
           Inl DoesNotExist \<Rightarrow> (Inr (render_error ''login.html'' msg_correo_no_registrado), w)
         | Inl e \<Rightarrow> (Inl e, w)
         | Inr user \<Rightarrow>
             (case AppUser_check_password H user (req_POST req ''password'') of
                Inl e \<Rightarrow> (Inl e, w)
              | Inr ok \<Rightarrow>
                  if \<not> ok
                  then (Inr (render_error ''login.html'' msg_contrasena_incorrecta), w)
                  else
                    (case generate_verification_code H en user (table w) of
                       Inl e \<Rightarrow> (Inl e, w)
                     | Inr (user1, tbl1) \<Rightarrow>
                         (case send_mail en (code_mail LoginCodeMail user1)
                                 (w\<lparr>table := tbl1\<rparr>) of
                            Inl e \<Rightarrow> (Inl e, w\<lparr>table := tbl1\<rparr>)
                          | Inr w2 \<Rightarrow>
                              (Inr (Redirect ''verify_code''),
                               w2\<lparr>session :=
                                    (session w2)\<lparr>user_email := Some (email user1)\<rparr>\<rparr>)))))
      else (Inr (Render ''login.html'' []), w))"

text \<open>
  In \<open>register\<close> the four fields are present once the required-field test has passed, so
  \<open>the\<close> reads a value that is there.
\<close>

definition register :: "hasher \<Rightarrow> env \<Rightarrow> request \<Rightarrow> world \<Rightarrow> result" where
  "register H en req w =
     (if req_method req = ''POST'' then
        (let fname = req_POST req ''first_name'';
             lname = req_POST req ''last_name'';
             mail_addr = req_POST req ''email'';
             passwd = req_POST req ''password''
         in
           if falsy fname \<or> falsy lname \<or> falsy mail_addr \<or> falsy passwd
           then (Inr (render_error ''register.html'' msg_campos_obligatorios), w)
           else if objects_exists (email_is mail_addr) (table w)
           then (Inr (render_error ''register.html'' msg_correo_en_uso), w)
           else
             (case AppUser_save H en
                     \<lparr>pk = None, first_name = the fname, last_name = the lname,
                      email = the mail_addr,
                      password = make_password H (salt_view en) (unusable_suffix en) passwd,
                      verification_code = None\<rparr> (table w) of
                Inl e \<Rightarrow> (Inl e, w)
              | Inr (user1, tbl1) \<Rightarrow> (Inr (Redirect ''login''), w\<lparr>table := tbl1\<rparr>)))
      else (Inr (Render ''register.html'' []), w))"

definition verify_code :: "request \<Rightarrow> world \<Rightarrow> result" where
  "verify_code req w =
     (let addr = user_email (session w) in
        if falsy addr then (Inr (Redirect ''login''), w)
        else if req_method req = ''POST'' then
          (case objects_get (\<lambda>u. email_is addr u \<and> code_is (req_POST req ''code'') u) (table w) of
             Inr user \<Rightarrow>
               (Inr (Redirect ''home''),
                w\<lparr>session := (session w)\<lparr>authenticated_user := Some (email user)\<rparr>\<rparr>)
           | Inl DoesNotExist \<Rightarrow> (Inr (render_error ''verify_code.html'' msg_codigo_incorrecto), w)
           | Inl e \<Rightarrow> (Inl e, w))
        else (Inr (Render ''verify_code.html'' []), w))"

definition forgot_password :: "hasher \<Rightarrow> env \<Rightarrow> request \<Rightarrow> world \<Rightarrow> result" where
  "forgot_password H en req w =
     (if req_method req = ''POST'' then
        (case objects_get (email_is (req_POST req ''email'')) (table w) of
           Inl DoesNotExist \<Rightarrow>
             (Inr (render_error ''forgot_password.html'' msg_correo_no_registrado), w)
         | Inl e \<Rightarrow> (Inl e, w)
         | Inr user \<Rightarrow>
             (case generate_verification_code H en user (table w) of
                Inl e \<Rightarrow> (Inl e, w)
              | Inr (user1, tbl1) \<Rightarrow>
                  (case send_mail en (code_mail ResetCodeMail user1) (w\<lparr>table := tbl1\<rparr>) of
                     Inl e \<Rightarrow> (Inl e, w\<lparr>table := tbl1\<rparr>)
                   | Inr w2 \<Rightarrow>
                       (Inr (Redirect ''verify_reset_code''),
                        w2\<lparr>session := (session w2)\<lparr>reset_email := Some (email user1)\<rparr>\<rparr>))))
      else (Inr (Render ''forgot_password.html'' []), w))"

definition verify_reset_code :: "request \<Rightarrow> world \<Rightarrow> result" where
  "verify_reset_code req w =
     (let addr = reset_email (session w) in
        if falsy addr then (Inr (Redirect ''forgot_password''), w)
        else if req_method req = ''POST'' then
          (case objects_get (\<lambda>u. email_is addr u \<and> code_is (req_POST req ''code'') u) (table w) of
             Inr user \<Rightarrow>
               (Inr (Redirect ''reset_password''),
                w\<lparr>session := (session w)\<lparr>verified_reset := Some True\<rparr>\<rparr>)
           | Inl DoesNotExist \<Rightarrow>
               (Inr (render_error ''verify_reset_code.html'' msg_codigo_incorrecto), w)
           | Inl e \<Rightarrow> (Inl e, w))
        else (Inr (Render ''verify_reset_code.html'' []), w))"

definition reset_password :: "hasher \<Rightarrow> env \<Rightarrow> request \<Rightarrow> world \<Rightarrow> result" where
  "reset_password H en req w =
     (let addr = reset_email (session w); verified = verified_reset (session w) in
        if falsy addr \<or> falsy_flag verified then (Inr (Redirect ''forgot_password''), w)
        else if req_method req = ''POST'' then
          (case objects_get (email_is addr) (table w) of
             Inl e \<Rightarrow> (Inl e, w)
           | Inr user \<Rightarrow>
               (case AppUser_save H en
                       (user\<lparr>password := make_password H (salt_view en) (unusable_suffix en)
                                            (req_POST req ''password''),
                             verification_code := None\<rparr>) (table w) of
                  Inl e \<Rightarrow> (Inl e, w)
                | Inr (user1, tbl1) \<Rightarrow>
                    (Inr (Redirect ''login''),
                     w\<lparr>table := tbl1,
                       session := (session w)\<lparr>reset_email := None, verified_reset := None\<rparr>\<rparr>)))
        else (Inr (Render ''reset_password.html'' []), w))"

definition logout_view :: "request \<Rightarrow> world \<Rightarrow> result" where
  "logout_view req w = (Inr (Redirect ''login''), w\<lparr>session := empty_session\<rparr>)"

definition home :: "request \<Rightarrow> world \<Rightarrow> result" where
  "home req w =
     (if falsy (authenticated_user (session w)) then (Inr (Redirect ''login''), w)
      else (Inr (Render ''home.html'' []), w))"

definition historia_clinica :: "request \<Rightarrow> world \<Rightarrow> result" where
  "historia_clinica req w =
     (if falsy (authenticated_user (session w)) then (Inr (Redirect ''login''), w)
      else (Inr (Render ''historia clinica.html'' []), w))"

subsection \<open>The classification view\<close>

text \<open>
  The two module-level globals, \<open>None\<close> when the model directory is missing or loading
  raised. A loaded tokenizer turns the text into token ids and a loaded model turns these
  into the index of the largest logit; either may raise.
\<close>

record ml_globals =
  modelo_cargado :: "(nat list \<Rightarrow> error + int) option"
  tokenizer_cargado :: "(string \<Rightarrow> error + nat list) option"

definition msg_modelo_no_disponible :: string where
  "msg_modelo_no_disponible = ''Error: Modelo no disponible. Revisa los logs del servidor.''"

definition labels_get :: "int \<Rightarrow> string" where
  "labels_get i =
     (if i = 0 then ''Control Sano (CO)''
      else if i = 1 then ''C'' @ [CHR 0xE1] @ ''ncer Colorrectal (CRC)''
      else ''Categor'' @ [CHR 0xED] @ ''a Desconocida'')"

definition predecir_con_modelo_entrenado :: "ml_globals \<Rightarrow> string \<Rightarrow> error + string" where
  "predecir_con_modelo_entrenado G texto =
     (case (modelo_cargado G, tokenizer_cargado G) of
        (Some modelo, Some tokenizer) \<Rightarrow>
          (case tokenizer texto of
             Inl e \<Rightarrow> Inl e
           | Inr input_ids \<Rightarrow>
               (case modelo input_ids of
                  Inl e \<Rightarrow> Inl e
                | Inr prediction_id \<Rightarrow> Inr (labels_get prediction_id)))
      | _ \<Rightarrow> Inr msg_modelo_no_disponible)"

definition prediccion_contexto :: "string option \<Rightarrow> string \<Rightarrow> response" where
  "prediccion_contexto resultado texto =
     Render ''hacer_prediccion.html''
       [(''resultado_prediccion'', resultado), (''texto_ingresado'', Some texto)]"

definition hacer_prediccion_view :: "ml_globals \<Rightarrow> request \<Rightarrow> world \<Rightarrow> result" where
  "hacer_prediccion_view G req w =
     (if req_method req = ''POST'' then
        (let texto_ingresado =
               (case req_POST req ''texto_clinico'' of None \<Rightarrow> [] | Some t \<Rightarrow> t)
         in if texto_ingresado \<noteq> [] then
              (case predecir_con_modelo_entrenado G texto_ingresado of
                 Inl e \<Rightarrow> (Inl e, w)
               | Inr r \<Rightarrow> (Inr (prediccion_contexto (Some r) texto_ingresado), w))
            else (Inr (prediccion_contexto None texto_ingresado), w))
      else (Inr (prediccion_contexto None []), w))"

section \<open>Routing (myapp/urls.py) and runs of requests\<close>

datatype view = Welcome | Login | Register | VerifyCode | ForgotPassword
  | VerifyResetCode | ResetPassword | Logout | Home | HistoriaClinica | HacerPrediccion

fun dispatch :: "hasher \<Rightarrow> ml_globals \<Rightarrow> view \<Rightarrow> env \<Rightarrow> request \<Rightarrow> world \<Rightarrow> result" where
  "dispatch H G Welcome en req w = welcome_view req w"
| "dispatch H G Login en req w = login_view H en req w"
| "dispatch H G Register en req w = register H en req w"
| "dispatch H G VerifyCode en req w = verify_code req w"
| "dispatch H G ForgotPassword en req w = forgot_password H en req w"
| "dispatch H G VerifyResetCode en req w = verify_reset_code req w"
| "dispatch H G ResetPassword en req w = reset_password H en req w"
| "dispatch H G Logout en req w = logout_view req w"
| "dispatch H G Home en req w = home req w"
| "dispatch H G HistoriaClinica en req w = historia_clinica req w"
| "dispatch H G HacerPrediccion en req w = hacer_prediccion_view G req w"

text \<open>
  A run serves the requests of one browser in order. A request that raises is answered
  with an error page and the next request is served from the state the failed one left.
\<close>

fun run :: "hasher \<Rightarrow> ml_globals \<Rightarrow> (view \<times> env \<times> request) list \<Rightarrow> world \<Rightarrow> world" where
  "run H G [] w = w"
| "run H G ((v, en, req) # rs) w = run H G rs (snd (dispatch H G v en req w))"

section \<open>Well-formed tables and concrete instances\<close>

text \<open>
  The constraint \<^verbatim>\<open>unique=True\<close> of the \<^verbatim>\<open>email\<close> column, and the well-formedness of a
  stored table: every row has a primary key, and no key and no email occurs twice.
\<close>

definition unique_email :: "app_user list \<Rightarrow> bool" where
  "unique_email tbl = distinct (map email tbl)"

definition wf_table :: "app_user list \<Rightarrow> bool" where
  "wf_table tbl = (distinct (map email tbl) \<and> distinct (map pk tbl) \<and> None \<notin> set (map pk tbl))"

text \<open>
  A hasher that satisfies \<open>pbkdf2_hasher\<close>, used to run the views on concrete requests: it
  keeps the raw password after the algorithm name and the salt, and cannot decode a value
  that has the algorithm name but no salt separator.
\<close>

definition toy_hasher :: hasher where
  "toy_hasher = \<lparr>
     hasher_encode = (\<lambda>p s. ''pbkdf2_sha256$'' @ filter (\<lambda>c. c \<noteq> CHR ''$'') s @ ''$'' @ p),
     hasher_verify = (\<lambda>q enc.
        if \<not> startswith enc ''pbkdf2_sha256$'' then Inr False
        else if CHR ''$'' \<notin> set (drop 14 enc) then Inl ValueError
        else Inr (drop 1 (dropWhile (\<lambda>c. c \<noteq> CHR ''$'') (drop 14 enc)) = q))\<rparr>"

definition post_request :: "(string \<times> string) list \<Rightarrow> request" where
  "post_request kvs = \<lparr>req_method = ''POST'', req_POST = map_of kvs\<rparr>"

definition env_ok :: env where
  "env_ok = \<lparr>code_draw = 382913, salt_view = ''s4lt'', salt_save = ''s4lt2'',
     unusable_suffix = ''Zq7'', smtp_ok = True\<rparr>"

definition globals_unloaded :: ml_globals where
  "globals_unloaded = \<lparr>modelo_cargado = None, tokenizer_cargado = None\<rparr>"

definition user_ana :: app_user where
  "user_ana = \<lparr>pk = Some 1, first_name = ''Ana'', last_name = ''Lopez'',
     email = ''ana@x.com'', password = ''pbkdf2_sha256$s4lt$Secret1'',
     verification_code = Some ''482913''\<rparr>"

definition world_empty :: world where
  "world_empty = \<lparr>table = [], session = empty_session, outbox = []\<rparr>"

definition world_ana :: world where
  "world_ana = \<lparr>table = [user_ana], session = empty_session, outbox = []\<rparr>"

definition world_ana_awaiting :: world where
  "world_ana_awaiting = world_ana\<lparr>session := empty_session\<lparr>user_email := Some ''ana@x.com''\<rparr>\<rparr>"

definition user_raw :: app_user where
  "user_raw = \<lparr>pk = None, first_name = ''Eva'', last_name = ''Ruiz'',
     email = ''eva@x.com'', password = ''Secret1'', verification_code = None\<rparr>"

definition user_plain :: app_user where
  "user_plain = user_raw\<lparr>password := ''pbkdf2_sha256$hunter2''\<rparr>"

definition world_ana_reset :: world where
  "world_ana_reset = world_ana\<lparr>session :=
     empty_session\<lparr>reset_email := Some ''ana@x.com'', verified_reset := Some True\<rparr>\<rparr>"

definition user_ana_new :: app_user where
  "user_ana_new = user_ana\<lparr>password := ''pbkdf2_sha256$s4lt$Nueva2'', verification_code := None\<rparr>"

definition req_register_ana :: request where
  "req_register_ana = post_request [(''first_name'', ''Ana''), (''last_name'', ''Lopez''),
     (''email'', ''ana@x.com''), (''password'', ''Secret1'')]"

definition req_login_ana :: request where
  "req_login_ana = post_request [(''email'', ''ana@x.com''), (''password'', ''Secret1'')]"

definition code_mail_ana :: mail where
  "code_mail_ana = \<lparr>mail_kind = LoginCodeMail, mail_first_name = ''Ana'',
     mail_code = Some ''482913'', mail_from = ''ana@x.com'', mail_to = [''ana@x.com'']\<rparr>"

text \<open>
  The scenario of the specification: registration, login, the code of the mail.
\<close>

definition login_run :: "(view \<times> env \<times> request) list" where
  "login_run =
     [(Register, env_ok, req_register_ana),
      (Login, env_ok, req_login_ana),
      (VerifyCode, env_ok, post_request [(''code'', ''482913'')])]"

definition world_ana_logged_in :: world where
  "world_ana_logged_in =
     \<lparr>table = [user_ana],
      session = empty_session\<lparr>user_email := Some ''ana@x.com'',
                  authenticated_user := Some ''ana@x.com''\<rparr>,
      outbox = [code_mail_ana]\<rparr>"

text \<open>
  A second registered user, and a browser that asks for a reset of Ana's password,
  submits the code mailed to Ana, and then asks for a reset of Bob's password. The code
  drawn for Bob is 100023.
\<close>

definition user_bob :: app_user where
  "user_bob = \<lparr>pk = Some 2, first_name = ''Bob'', last_name = ''Diaz'',
     email = ''bob@x.com'', password = ''pbkdf2_sha256$s4lt$BobPass9'',
     verification_code = None\<rparr>"

definition world_ana_bob :: world where
  "world_ana_bob = \<lparr>table = [user_ana, user_bob], session = empty_session, outbox = []\<rparr>"

definition env_bob :: env where
  "env_bob = env_ok\<lparr>code_draw := 23\<rparr>"

definition takeover_run :: "(view \<times> env \<times> request) list" where
  "takeover_run =
     [(ForgotPassword, env_ok, post_request [(''email'', ''ana@x.com'')]),
      (VerifyResetCode, env_ok, post_request [(''code'', ''482913'')]),
      (ForgotPassword, env_bob, post_request [(''email'', ''bob@x.com'')])]"

definition req_reset_owned :: request where
  "req_reset_owned = post_request [(''password'', ''Owned3'')]"





text \<open>
  The number a decimal text denotes, as \<^verbatim>\<open>int\<close> reads it: it recovers the number from
  its \<^verbatim>\<open>str\<close>, so that different numbers have different texts.
\<close>

definition decimal_value :: "string \<Rightarrow> nat" where
  "decimal_value s = foldl (\<lambda>a c. 10 * a + (of_char c - 48)) 0 s"

text \<open>
  The pairing of the two keys of the reset flow: \<^verbatim>\<open>verified_reset\<close> is in the session
  only together with \<^verbatim>\<open>reset_email\<close>.
\<close>

definition reset_pair_ok :: "session \<Rightarrow> bool" where
  "reset_pair_ok s = (verified_reset s \<noteq> None \<longrightarrow> reset_email s \<noteq> None)"

section \<open>Properties\<close>

lemma dropWhile_filter_same: "dropWhile P (filter P xs @ ys) = dropWhile P ys"
  by (rule dropWhile_append2) simp

lemma toy_hasher_ok: "pbkdf2_hasher toy_hasher"
  by (auto simp add: pbkdf2_hasher_def toy_hasher_def startswith_def dropWhile_filter_same)

lemma prefix_not_unusable:
  "startswith s ''pbkdf2_sha256$'' \<Longrightarrow> is_password_usable s"
  by (cases s) (auto simp: startswith_def is_password_usable_def)

lemma Model_save_member:
  "Model_save self tbl = Inr (self', tbl') \<Longrightarrow>
   self' \<in> set tbl' \<and> self' = self\<lparr>pk := pk self'\<rparr>"
  by (auto simp: Model_save_def Let_def split: if_splits option.splits)

lemma digit_below_ten:
  "d < 10 \<Longrightarrow> d = 0 \<or> d = 1 \<or> d = 2 \<or> d = 3 \<or> d = 4 \<or> d = 5 \<or> d = 6 \<or> d = 7 \<or> d = 8
     \<or> d = (9::nat)"
  by arith

lemma digit_char_values:
  "digit_char 0 = CHR ''0''" "digit_char 1 = CHR ''1''" "digit_char 2 = CHR ''2''"
  "digit_char 3 = CHR ''3''" "digit_char 4 = CHR ''4''" "digit_char 5 = CHR ''5''"
  "digit_char 6 = CHR ''6''" "digit_char 7 = CHR ''7''" "digit_char 8 = CHR ''8''"
  "digit_char 9 = CHR ''9''" "digit_char (Suc 0) = CHR ''1''"
  by code_simp+

lemma digit_char_in:
  assumes "d < 10"
  shows "digit_char d \<in> set ''0123456789''"
  using digit_below_ten [OF assms] by (elim disjE) (simp_all add: digit_char_values)

lemma digit_char_zero:
  assumes "d < 10"
  shows "(digit_char d = CHR ''0'') = (d = 0)"
  using digit_below_ten [OF assms] by (elim disjE) (simp_all add: digit_char_values)

lemma digits_not_empty: "digits n \<noteq> []"
  by (subst digits.simps) simp

lemma digits_length: "10 ^ k \<le> n \<Longrightarrow> n < 10 ^ Suc k \<Longrightarrow> length (digits n) = Suc k"
proof (induction k arbitrary: n)
  case 0
  then show ?case by (subst digits.simps) simp
next
  case (Suc k)
  have "(10::nat) \<le> 10 ^ Suc k" by simp
  with Suc.prems(1) have ge: "10 \<le> n" by linarith
  from Suc.prems have "10 ^ k \<le> n div 10" "n div 10 < 10 ^ Suc k"
    by (simp_all add: less_mult_imp_div_less  div_le_mono [of "10 * 10 ^ k" n 10, simplified] mult.commute)
  from Suc.IH [OF this] ge show ?case by (subst digits.simps) simp
qed

lemma digits_decimal: "set (digits n) \<subseteq> set ''0123456789''"
proof (induction n rule: digits.induct)
  case (1 n)
  show ?case
  proof (cases "n < 10")
    case True
    with digit_char_in [of n] show ?thesis by (subst digits.simps) simp
  next
    case False
    have "n mod 10 < 10" by simp
    with False 1 digit_char_in [of "n mod 10"] show ?thesis
      by (subst digits.simps) simp
  qed
qed

lemma digits_no_leading_zero: "0 < n \<Longrightarrow> hd (digits n) \<noteq> CHR ''0''"
proof (induction n rule: digits.induct)
  case (1 n)
  show ?case
  proof (cases "n < 10")
    case True
    with digit_char_zero [of n] "1.prems" show ?thesis by (subst digits.simps) simp
  next
    case False
    then have "0 < n div 10" by simp
    with False 1 show ?thesis
      by (subst digits.simps) (simp add: digits_not_empty)
  qed
qed

lemma randint_code_range:
  "100000 \<le> randint 100000 999999 d \<and> randint 100000 999999 d \<le> 999999"
proof -
  have "d mod 900000 < 900000" by simp
  then show ?thesis unfolding randint_def by simp
qed

lemma randint_code_onto:
  "100000 \<le> N \<Longrightarrow> N \<le> 999999 \<Longrightarrow> randint 100000 999999 (nat (N - 100000)) = N"
  by (simp add: randint_def)

lemma code_shape:
  assumes "100000 \<le> N" "N \<le> 999999"
  shows "length (py_str N) = 6 \<and> set (py_str N) \<subseteq> set ''0123456789'' \<and> hd (py_str N) \<noteq> CHR ''0''"
proof -
  from assms have "10 ^ 5 \<le> nat N" "nat N < 10 ^ Suc 5" "0 < nat N" by simp_all
  from digits_length [OF this(1,2)] digits_decimal [of "nat N"] digits_no_leading_zero [OF this(3)]
    assms show ?thesis by (simp add: py_str_def)
qed

lemma generate_code_value:
  assumes "generate_verification_code H en self tbl = Inr (self', tbl')"
  shows "verification_code self' = Some (py_str (randint 100000 999999 (code_draw en)))
     \<and> self' \<in> set tbl'"
proof -
  from assms obtain s1 where s1: "Model_save s1 tbl = Inr (self', tbl')"
    and c: "verification_code s1 = Some (py_str (randint 100000 999999 (code_draw en)))"
    by (auto simp: generate_verification_code_def AppUser_save_def Let_def split: if_splits)
  from Model_save_member [OF s1] have "self' \<in> set tbl'" "verification_code self' = verification_code s1"
    by (auto, metis app_user.select_convs(6) app_user.surjective app_user.update_convs(1))
  with c show ?thesis by simp
qed



lemma unique_email_row:
  "unique_email tbl \<Longrightarrow> u \<in> set tbl \<Longrightarrow> r \<in> set tbl \<Longrightarrow> email r = email u \<Longrightarrow> r = u"
  unfolding unique_email_def by (meson distinct_map inj_onD)

lemma Model_save_succeeds:
  assumes "unique_email tbl" and "u \<in> set tbl" and "email self = email u" and "pk self = pk u"
  shows "\<exists>self' tbl'. Model_save self tbl = Inr (self', tbl')"
proof -
  have "\<not> (\<exists>r \<in> set tbl. email r = email self \<and> pk r \<noteq> pk self)"
    using unique_email_row [OF assms(1,2)] assms(3,4) by auto
  then show ?thesis
    by (auto simp: Model_save_def Let_def split: option.splits)
qed

lemma generate_succeeds:
  assumes "unique_email tbl" and "self \<in> set tbl"
  shows "\<exists>self' tbl'. generate_verification_code H en self tbl = Inr (self', tbl')"
  unfolding generate_verification_code_def AppUser_save_def Let_def
  by (rule Model_save_succeeds [OF assms]) simp_all

lemma code_382913: "py_str (randint 100000 999999 382913) = ''482913''"
  by (simp add: py_str_def randint_def digits.simps digit_char_values)

lemma send_mail_session:
  "send_mail en m w = Inr w' \<Longrightarrow> session w' = session w \<and> table w' = table w"
  by (auto simp: send_mail_def split: if_splits)

lemma login_view_reset_keys:
  "reset_email (session (snd (login_view H en req w))) = reset_email (session w) \<and>
   verified_reset (session (snd (login_view H en req w))) = verified_reset (session w)"
  by (auto simp: login_view_def dest!: send_mail_session
      split: sum.splits error.splits prod.splits)

lemma register_session: "session (snd (register H en req w)) = session w"
  by (auto simp: register_def Let_def split: sum.splits prod.splits)

lemma verify_code_reset_keys:
  "reset_email (session (snd (verify_code req w))) = reset_email (session w) \<and>
   verified_reset (session (snd (verify_code req w))) = verified_reset (session w)"
  by (auto simp: verify_code_def Let_def split: sum.splits error.splits)

lemma forgot_password_reset_keys:
  "reset_pair_ok (session w) \<Longrightarrow> reset_pair_ok (session (snd (forgot_password H en req w)))"
  by (auto simp: forgot_password_def reset_pair_ok_def dest!: send_mail_session
      split: sum.splits error.splits prod.splits)

lemma verify_reset_code_reset_keys:
  "reset_pair_ok (session w) \<Longrightarrow> reset_pair_ok (session (snd (verify_reset_code req w)))"
  by (auto simp: verify_reset_code_def reset_pair_ok_def Let_def falsy_def
      split: sum.splits error.splits)

lemma reset_password_reset_keys:
  "reset_pair_ok (session w) \<Longrightarrow> reset_pair_ok (session (snd (reset_password H en req w)))"
  by (auto simp: reset_password_def reset_pair_ok_def Let_def
      split: sum.splits prod.splits)

lemma dispatch_reset_pair:
  "reset_pair_ok (session w) \<Longrightarrow> reset_pair_ok (session (snd (dispatch H G v en req w)))"
proof (cases v)
  case Login
  then show "reset_pair_ok (session w) \<Longrightarrow> ?thesis"
    using login_view_reset_keys [of H en req w] by (simp add: reset_pair_ok_def)
next
  case Register
  then show "reset_pair_ok (session w) \<Longrightarrow> ?thesis" by (simp add: register_session)
next
  case VerifyCode
  then show "reset_pair_ok (session w) \<Longrightarrow> ?thesis"
    using verify_code_reset_keys [of req w] by (simp add: reset_pair_ok_def)
next
  case ForgotPassword
  then show "reset_pair_ok (session w) \<Longrightarrow> ?thesis" by (simp add: forgot_password_reset_keys)
next
  case VerifyResetCode
  then show "reset_pair_ok (session w) \<Longrightarrow> ?thesis" by (simp add: verify_reset_code_reset_keys)
next
  case ResetPassword
  then show "reset_pair_ok (session w) \<Longrightarrow> ?thesis" by (simp add: reset_password_reset_keys)
next
  case Logout
  then show "reset_pair_ok (session w) \<Longrightarrow> ?thesis"
    by (simp add: logout_view_def reset_pair_ok_def empty_session_def)
next
  case HacerPrediccion
  then show "reset_pair_ok (session w) \<Longrightarrow> ?thesis"
    by (auto simp: hacer_prediccion_view_def Let_def split: sum.splits)
qed (simp_all add: welcome_view_def home_def historia_clinica_def)

lemma run_reset_pair:
  "reset_pair_ok (session w) \<Longrightarrow> reset_pair_ok (session (run H G rs w))"
proof (induction rs arbitrary: w)
  case Nil
  then show ?case by simp
next
  case (Cons r rs)
  obtain v en req where r: "r = (v, en, req)" by (cases r)
  from Cons.prems have "reset_pair_ok (session (snd (dispatch H G v en req w)))"
    by (rule dispatch_reset_pair)
  from Cons.IH [OF this] r show ?case by simp
qed




lemma filter_unique:
  "distinct (map f xs) \<Longrightarrow> x \<in> set xs \<Longrightarrow> filter (\<lambda>y. f y = f x) xs = [x]"
proof (induction xs)
  case Nil
  then show ?case by simp
next
  case (Cons a xs)
  show ?case
  proof (cases "a = x")
    case True
    from Cons.prems(1) have "f a \<notin> f ` set xs" by simp
    then have "\<And>y. y \<in> set xs \<Longrightarrow> f y \<noteq> f a" by (metis imageI)
    then have "filter (\<lambda>y. f y = f a) xs = []" by (simp add: filter_empty_conv)
    with True show ?thesis by simp
  next
    case False
    with Cons.prems have x: "x \<in> set xs" and d: "distinct (map f xs)" by auto
    from Cons.prems(1) have "f a \<notin> f ` set xs" by simp
    with x have "f a \<noteq> f x" by (metis imageI)
    with Cons.IH [OF d x] show ?thesis by simp
  qed
qed

lemma get_by_email:
  assumes "wf_table tbl" and "u \<in> set tbl"
  shows "objects_get (email_is (Some (email u))) tbl = Inr u"
proof -
  from assms have "filter (\<lambda>r. email r = email u) tbl = [u]"
    by (intro filter_unique) (simp_all add: wf_table_def)
  moreover have "email_is (Some (email u)) = (\<lambda>r. email r = email u)"
    by (rule ext) (simp add: email_is_def)
  ultimately show ?thesis by (simp add: objects_get_def)
qed

lemma wf_table_pk_row:
  assumes "wf_table tbl" and "u \<in> set tbl" and "r \<in> set tbl" and "pk r = pk u"
  shows "r = u"
  using assms unfolding wf_table_def by (meson distinct_map inj_onD)

lemma wf_table_email_row:
  assumes "wf_table tbl" and "u \<in> set tbl" and "r \<in> set tbl" and "email r = email u"
  shows "r = u"
  using assms unfolding wf_table_def by (meson distinct_map inj_onD)

lemma Model_save_update:
  assumes wf: "wf_table tbl" and u: "u \<in> set tbl"
    and e: "email self = email u" and k: "pk self = pk u"
  shows "Model_save self tbl = Inr (self, map (\<lambda>r. if pk r = pk u then self else r) tbl)"
proof -
  from wf have "None \<notin> pk ` set tbl" by (simp add: wf_table_def)
  with u have "pk u \<noteq> None" by (metis imageI)
  then obtain i where i: "pk u = Some i" by blast
  have "\<not> (\<exists>r \<in> set tbl. email r = email self \<and> pk r \<noteq> pk self)"
    using wf_table_email_row [OF wf u] e k by auto
  moreover have "\<exists>r \<in> set tbl. pk r = Some i" using u i by auto
  ultimately show ?thesis using i k by (simp add: Model_save_def)
qed

lemma update_row_wf:
  assumes wf: "wf_table tbl" and u: "u \<in> set tbl"
    and e: "email self = email u" and k: "pk self = pk u"
  shows "wf_table (map (\<lambda>r. if pk r = pk u then self else r) tbl)
    \<and> self \<in> set (map (\<lambda>r. if pk r = pk u then self else r) tbl)"
proof -
  let ?g = "\<lambda>r. if pk r = pk u then self else r"
  have same: "email (?g r) = email r \<and> pk (?g r) = pk r" if "r \<in> set tbl" for r
    using wf_table_pk_row [OF wf u that] e k by auto
  then have m: "map email (map ?g tbl) = map email tbl" "map pk (map ?g tbl) = map pk tbl"
    by (simp_all add: map_idI comp_def cong: map_cong)
  from wf have "wf_table (map ?g tbl)" unfolding wf_table_def m .
  moreover from u have "?g u \<in> ?g ` set tbl" by (rule imageI)
  then have "self \<in> set (map ?g tbl)" by simp
  ultimately show ?thesis by simp
qed


lemma code_23: "py_str (randint 100000 999999 23) = ''100023''"
  by (simp add: py_str_def randint_def digits.simps digit_char_values)


lemma decimal_value_snoc:
  "decimal_value (s @ [c]) = 10 * decimal_value s + (of_char c - 48)"
  by (simp add: decimal_value_def)

lemma decimal_value_digit: "d < 10 \<Longrightarrow> decimal_value [digit_char d] = d"
  by (simp add: decimal_value_def digit_char_def)

lemma decimal_value_digits: "decimal_value (digits n) = n"
proof (induction n rule: digits.induct)
  case (1 n)
  show ?case
  proof (cases "n < 10")
    case True
    then show ?thesis by (subst digits.simps) (simp add: decimal_value_digit)
  next
    case False
    have "n mod 10 < 10" by simp
    then have "of_char (digit_char (n mod 10)) - 48 = n mod 10"
      using decimal_value_digit [of "n mod 10"] by (simp add: decimal_value_def)
    with False 1 show ?thesis
      by (subst digits.simps) (simp add: decimal_value_snoc)
  qed
qed

lemma py_str_inj: "0 \<le> a \<Longrightarrow> 0 \<le> b \<Longrightarrow> py_str a = py_str b \<Longrightarrow> a = b"
proof -
  assume a: "0 \<le> a" and b: "0 \<le> b" and e: "py_str a = py_str b"
  from a b e have "digits (nat a) = digits (nat b)" by (simp add: py_str_def)
  then have "decimal_value (digits (nat a)) = decimal_value (digits (nat b))" by simp
  then have "nat a = nat b" by (simp add: decimal_value_digits)
  with a b show ?thesis by simp
qed

lemma code_bijection:
  "bij_betw (\<lambda>d. py_str (randint 100000 999999 d)) {..<900000} (py_str ` {100000..999999})"
proof (rule bij_betwI')
  fix x y :: nat
  assume "x \<in> {..<900000}" "y \<in> {..<900000}"
  then have xy: "randint 100000 999999 x = 100000 + int x"
    "randint 100000 999999 y = 100000 + int y"
    by (simp_all add: randint_def)
  show "(py_str (randint 100000 999999 x) = py_str (randint 100000 999999 y)) = (x = y)"
  proof
    assume "py_str (randint 100000 999999 x) = py_str (randint 100000 999999 y)"
    with xy have "100000 + int x = 100000 + int y" by (intro py_str_inj) simp_all
    then show "x = y" by simp
  qed simp
next
  fix x :: nat
  assume "x \<in> {..<900000}"
  from randint_code_range [of x]
  show "py_str (randint 100000 999999 x) \<in> py_str ` {100000..999999}" by simp
next
  fix c
  assume "c \<in> py_str ` {100000..999999}"
  then obtain N where N: "100000 \<le> N" "N \<le> 999999" "c = py_str N" by auto
  then have "nat (N - 100000) \<in> {..<900000}" by simp
  moreover from N have "c = py_str (randint 100000 999999 (nat (N - 100000)))"
    by (simp add: randint_code_onto)
  ultimately show "\<exists>x \<in> {..<900000}. c = py_str (randint 100000 999999 x)" by blast
qed

subsection \<open>A wrong code at the code step\<close>

text \<open>
  C1. The session awaits a code: \<^verbatim>\<open>user_email\<close> holds the (non-empty) email of a
  registered user, and emails are unique in the table. A POST to \<^verbatim>\<open>verify_code\<close> whose
  submitted code (possibly missing) differs from the code stored for that user renders
  \<^verbatim>\<open>verify_code.html\<close> with the error message and returns the world as it was: the
  session, \<^verbatim>\<open>authenticated_user\<close> included, and every user record are unchanged.
\<close>

theorem verify_code_wrong_code:
  assumes "unique_email (table w)"
    and "u \<in> set (table w)"
    and "user_email (session w) = Some (email u)"
    and "email u \<noteq> []"
    and "req_method req = ''POST''"
    and "req_POST req ''code'' \<noteq> verification_code u"
  shows "verify_code req w = (Inr (render_error ''verify_code.html'' msg_codigo_incorrecto), w)"
proof -
  have "filter (\<lambda>r. email_is (Some (email u)) r \<and> code_is (req_POST req ''code'') r) (table w) = []"
  proof (rule ccontr)
    assume "\<not> ?thesis"
    then obtain r where r: "r \<in> set (table w)" "email r = email u"
        "verification_code r = req_POST req ''code''"
      by (auto simp: filter_empty_conv email_is_def code_is_def)
    from assms(1) r(1,2) assms(2) have "r = u"
      unfolding unique_email_def by (meson distinct_map inj_onD)
    with r(3) assms(6) show False by simp
  qed
  then show ?thesis using assms(3,4,5)
    by (simp add: verify_code_def Let_def falsy_def objects_get_def)
qed

theorem verify_code_wrong_code_witness:
  "unique_email (table world_ana_awaiting) \<and>
   user_email (session world_ana_awaiting) = Some (email user_ana) \<and>
   verification_code user_ana = Some ''482913'' \<and>
   verify_code (post_request [(''code'', ''000000'')]) world_ana_awaiting
   = (Inr (render_error ''verify_code.html'' msg_codigo_incorrecto), world_ana_awaiting)"
  using verify_code_wrong_code [of world_ana_awaiting user_ana
      "post_request [(''code'', ''000000'')]"]
  by (simp add: post_request_def world_ana_awaiting_def world_ana_def user_ana_def
      unique_email_def)

subsection \<open>Requests that arrive out of order\<close>

text \<open>
  C2. When the session key a step depends on is absent (or holds an empty or false
  value), the view redirects to the entry of its flow and returns the world as it was,
  whatever the request carries: \<^verbatim>\<open>verify_code\<close> without \<^verbatim>\<open>user_email\<close> goes to
  \<^verbatim>\<open>login\<close>; \<^verbatim>\<open>verify_reset_code\<close> without \<^verbatim>\<open>reset_email\<close>, and \<^verbatim>\<open>reset_password\<close>
  without \<^verbatim>\<open>reset_email\<close> or without \<^verbatim>\<open>verified_reset\<close>, go to \<^verbatim>\<open>forgot_password\<close>.
\<close>

theorem gated_views_redirect:
  "(falsy (user_email (session w)) \<longrightarrow> verify_code req w = (Inr (Redirect ''login''), w)) \<and>
   (falsy (reset_email (session w)) \<longrightarrow>
      verify_reset_code req w = (Inr (Redirect ''forgot_password''), w)) \<and>
   (falsy (reset_email (session w)) \<or> falsy_flag (verified_reset (session w)) \<longrightarrow>
      reset_password H en req w = (Inr (Redirect ''forgot_password''), w))"
  by (simp add: verify_code_def verify_reset_code_def reset_password_def Let_def)

theorem gated_views_redirect_witness:
  "user_email (session world_ana) = None \<and> reset_email (session world_ana) = None \<and>
   verified_reset (session world_ana) = None \<and>
   verify_code (post_request [(''code'', ''482913'')]) world_ana
     = (Inr (Redirect ''login''), world_ana) \<and>
   verify_reset_code (post_request [(''code'', ''482913'')]) world_ana
     = (Inr (Redirect ''forgot_password''), world_ana) \<and>
   reset_password toy_hasher env_ok (post_request [(''password'', ''Other2'')]) world_ana
     = (Inr (Redirect ''forgot_password''), world_ana)"
  using gated_views_redirect [of world_ana "post_request [(''code'', ''482913'')]" toy_hasher env_ok]
    gated_views_redirect [of world_ana "post_request [(''password'', ''Other2'')]" toy_hasher env_ok]
  by (simp add: world_ana_def empty_session_def falsy_def falsy_flag_def)

subsection \<open>Classification without a model\<close>

lemma predecir_unavailable:
  "modelo_cargado G = None \<or> tokenizer_cargado G = None \<Longrightarrow>
   predecir_con_modelo_entrenado G texto = Inr msg_modelo_no_disponible"
  by (auto simp: predecir_con_modelo_entrenado_def split: option.splits)

text \<open>
  C9. When the model or the tokenizer is not loaded, \<^verbatim>\<open>predecir_con_modelo_entrenado\<close>
  returns the fixed error text for every input and raises nothing; the view then always
  answers with the rendered template and leaves the world alone, and for a POST with a
  non-empty text the rendered result is that error text.
\<close>

theorem model_unavailable_degrades:
  assumes "modelo_cargado G = None \<or> tokenizer_cargado G = None"
  shows "predecir_con_modelo_entrenado G texto = Inr msg_modelo_no_disponible \<and>
    (\<exists>r t. hacer_prediccion_view G req w = (Inr (prediccion_contexto r t), w)) \<and>
    (req_method req = ''POST'' \<and> req_POST req ''texto_clinico'' = Some texto \<and> texto \<noteq> []
      \<longrightarrow> hacer_prediccion_view G req w
            = (Inr (prediccion_contexto (Some msg_modelo_no_disponible) texto), w))"
proof (intro conjI impI)
  note p = predecir_unavailable [OF assms]
  show "predecir_con_modelo_entrenado G texto = Inr msg_modelo_no_disponible"
    by (rule p)
  show "\<exists>r t. hacer_prediccion_view G req w = (Inr (prediccion_contexto r t), w)"
    by (auto simp add: hacer_prediccion_view_def Let_def p)
  show "hacer_prediccion_view G req w
            = (Inr (prediccion_contexto (Some msg_modelo_no_disponible) texto), w)"
    if "req_method req = ''POST'' \<and> req_POST req ''texto_clinico'' = Some texto \<and> texto \<noteq> []"
    using that by (simp add: hacer_prediccion_view_def Let_def p)
qed

theorem model_unavailable_degrades_witness:
  "modelo_cargado globals_unloaded = None \<and>
   predecir_con_modelo_entrenado globals_unloaded ''dolor abdominal''
     = Inr ''Error: Modelo no disponible. Revisa los logs del servidor.'' \<and>
   hacer_prediccion_view globals_unloaded
       (post_request [(''texto_clinico'', ''dolor abdominal'')]) world_ana
     = (Inr (Render ''hacer_prediccion.html''
          [(''resultado_prediccion'',
            Some ''Error: Modelo no disponible. Revisa los logs del servidor.''),
           (''texto_ingresado'', Some ''dolor abdominal'')]), world_ana)"
  using model_unavailable_degrades [of globals_unloaded "''dolor abdominal''"
      "post_request [(''texto_clinico'', ''dolor abdominal'')]" world_ana]
  by (simp add: globals_unloaded_def post_request_def msg_modelo_no_disponible_def
      prediccion_contexto_def)

subsection \<open>Registration with a missing field\<close>

text \<open>
  C10. A registration POST in which one of \<^verbatim>\<open>first_name\<close>, \<^verbatim>\<open>last_name\<close>, \<^verbatim>\<open>email\<close>,
  \<^verbatim>\<open>password\<close> is missing or empty renders \<^verbatim>\<open>register.html\<close> with the required-fields
  message and returns the world as it was: no row is created. The table is arbitrary, so
  this is the answer also when the submitted email is already registered: the
  required-field test comes before the duplicate test.
\<close>

theorem register_required_fields:
  assumes "req_method req = ''POST''"
    and "falsy (req_POST req ''first_name'') \<or> falsy (req_POST req ''last_name'')
         \<or> falsy (req_POST req ''email'') \<or> falsy (req_POST req ''password'')"
  shows "register H en req w = (Inr (render_error ''register.html'' msg_campos_obligatorios), w)"
  using assms by (simp add: register_def Let_def)

theorem register_required_fields_witness:
  "req_method (post_request [(''first_name'', []), (''last_name'', ''Lopez''),
       (''email'', ''ana@x.com'')]) = ''POST'' \<and>
   objects_exists (email_is (Some ''ana@x.com'')) (table world_ana) \<and>
   register toy_hasher env_ok
     (post_request [(''first_name'', []), (''last_name'', ''Lopez''), (''email'', ''ana@x.com'')])
     world_ana
   = (Inr (render_error ''register.html'' msg_campos_obligatorios), world_ana)"
  using register_required_fields [of
      "post_request [(''first_name'', []), (''last_name'', ''Lopez''), (''email'', ''ana@x.com'')]"
      toy_hasher env_ok world_ana]
  by (simp add: post_request_def falsy_def objects_exists_def email_is_def world_ana_def
      user_ana_def)

subsection \<open>The verification code issuer\<close>

text \<open>
  C4 (as amended). For a stored user \<open>self\<close> of a well-formed table,
  \<^verbatim>\<open>generate_verification_code\<close> succeeds and returns the user's record \<open>self'\<close> with the
  code \<open>c\<close> on it; the table it leaves is the old one with the user's row replaced by
  \<open>self'\<close>, so the row found under the user's email carries the code and every other row
  is as it was; the mail the views build from the returned record carries the code. The
  code is \<^verbatim>\<open>str\<close> of a number between 100000 and 999999: six decimal digits,
  the first of which is not zero. It is drawn uniformly from this range: the 900000
  outcomes of the generator correspond one to one to the 900000 codes.
\<close>

theorem generate_verification_code_issues:
  assumes wf: "wf_table tbl" and self: "self \<in> set tbl"
    and c: "c = py_str (randint 100000 999999 (code_draw en))"
    and self': "self' =
      (if startswith (password self) ''pbkdf2_sha256$''
       then self\<lparr>verification_code := Some c\<rparr>
       else self\<lparr>verification_code := Some c,
              password := make_password H (salt_save en) (unusable_suffix en)
                            (Some (password self))\<rparr>)"
    and tbl': "tbl' = map (\<lambda>r. if pk r = pk self then self' else r) tbl"
  shows "generate_verification_code H en self tbl = Inr (self', tbl') \<and>
     objects_get (email_is (Some (email self))) tbl' = Inr self' \<and>
     (\<forall>r \<in> set tbl. r \<noteq> self \<longrightarrow> r \<in> set tbl') \<and> length tbl' = length tbl \<and>
     verification_code self' = Some c \<and> pk self' = pk self \<and>
     mail_code (code_mail k self') = Some c \<and>
     100000 \<le> randint 100000 999999 (code_draw en) \<and>
     randint 100000 999999 (code_draw en) \<le> 999999 \<and>
     length c = 6 \<and> set c \<subseteq> set ''0123456789'' \<and> hd c \<noteq> CHR ''0'' \<and>
     bij_betw (\<lambda>d. py_str (randint 100000 999999 d)) {..<900000}
       (py_str ` {100000..999999})"
proof -
  have eu: "email self' = email self" and ku: "pk self' = pk self"
    and vc: "verification_code self' = Some c"
    by (simp_all add: self')
  have "generate_verification_code H en self tbl = Model_save self' tbl"
    by (simp add: generate_verification_code_def AppUser_save_def Let_def self' c)
  with Model_save_update [OF wf self eu ku]
  have gen: "generate_verification_code H en self tbl = Inr (self', tbl')"
    by (simp add: tbl')
  note uw = update_row_wf [OF wf self eu ku]
  from uw have w1: "wf_table tbl'" unfolding tbl' by (rule conjunct1)
  from uw have w2: "self' \<in> set tbl'" unfolding tbl' by (rule conjunct2)
  from get_by_email [OF w1 w2] eu
  have get: "objects_get (email_is (Some (email self))) tbl' = Inr self'" by simp
  have others: "r \<in> set tbl'" if "r \<in> set tbl" "r \<noteq> self" for r
  proof -
    from wf_table_pk_row [OF wf self that(1)] that(2) have ne: "pk r \<noteq> pk self" by blast
    from that(1)
    have "(\<lambda>r. if pk r = pk self then self' else r) r
            \<in> (\<lambda>r. if pk r = pk self then self' else r) ` set tbl"
      by (rule imageI)
    with ne show ?thesis by (simp add: tbl')
  qed
  note r = randint_code_range [of "code_draw en"]
  from r have shape: "length c = 6 \<and> set c \<subseteq> set ''0123456789'' \<and> hd c \<noteq> CHR ''0''"
    unfolding c by (intro code_shape) simp_all
  have len: "length tbl' = length tbl" by (simp add: tbl')
  have ml: "mail_code (code_mail k self') = Some c" by (simp add: code_mail_def vc)
  from others have oth: "\<forall>r \<in> set tbl. r \<noteq> self \<longrightarrow> r \<in> set tbl'" by blast
  from r have lo: "100000 \<le> randint 100000 999999 (code_draw en)"
    and hi: "randint 100000 999999 (code_draw en) \<le> 999999" by blast+
  from shape have s1: "length c = 6" and s2: "set c \<subseteq> set ''0123456789''"
    and s3: "hd c \<noteq> CHR ''0''" by blast+
  show ?thesis
    by (intro conjI) (fact gen get oth len vc ku ml lo hi s1 s2 s3 code_bijection)+
qed

theorem generate_verification_code_issues_witness:
  "wf_table [user_ana, user_bob] \<and>
   generate_verification_code toy_hasher env_bob user_ana [user_ana, user_bob]
     = Inr (user_ana\<lparr>verification_code := Some ''100023''\<rparr>,
            [user_ana\<lparr>verification_code := Some ''100023''\<rparr>, user_bob]) \<and>
   objects_get (email_is (Some ''ana@x.com''))
       [user_ana\<lparr>verification_code := Some ''100023''\<rparr>, user_bob]
     = Inr (user_ana\<lparr>verification_code := Some ''100023''\<rparr>)"
proof -
  have wf: "wf_table [user_ana, user_bob]"
    by (simp add: wf_table_def user_ana_def user_bob_def)
  have self: "user_ana \<in> set [user_ana, user_bob]" by simp
  have c: "''100023'' = py_str (randint 100000 999999 (code_draw env_bob))"
    by (simp add: env_bob_def env_ok_def code_23)
  have self': "user_ana\<lparr>verification_code := Some ''100023''\<rparr> =
      (if startswith (password user_ana) ''pbkdf2_sha256$''
       then user_ana\<lparr>verification_code := Some ''100023''\<rparr>
       else user_ana\<lparr>verification_code := Some ''100023'',
              password := make_password toy_hasher (salt_save env_bob) (unusable_suffix env_bob)
                            (Some (password user_ana))\<rparr>)"
    by (simp add: user_ana_def startswith_def)
  have tbl': "[user_ana\<lparr>verification_code := Some ''100023''\<rparr>, user_bob]
      = map (\<lambda>r. if pk r = pk user_ana then user_ana\<lparr>verification_code := Some ''100023''\<rparr>
                  else r) [user_ana, user_bob]"
    by (simp add: user_ana_def user_bob_def)
  note t = generate_verification_code_issues [OF wf self c self' tbl']
  from t have g: "generate_verification_code toy_hasher env_bob user_ana [user_ana, user_bob]
     = Inr (user_ana\<lparr>verification_code := Some ''100023''\<rparr>,
            [user_ana\<lparr>verification_code := Some ''100023''\<rparr>, user_bob])"
    by (rule conjunct1)
  from t have "objects_get (email_is (Some (email user_ana)))
       [user_ana\<lparr>verification_code := Some ''100023''\<rparr>, user_bob]
     = Inr (user_ana\<lparr>verification_code := Some ''100023''\<rparr>)"
    by (rule conjunct1 [OF conjunct2])
  moreover have "email user_ana = ''ana@x.com''" by (simp add: user_ana_def)
  ultimately have o: "objects_get (email_is (Some ''ana@x.com''))
       [user_ana\<lparr>verification_code := Some ''100023''\<rparr>, user_bob]
     = Inr (user_ana\<lparr>verification_code := Some ''100023''\<rparr>)"
    by simp
  from wf g o show ?thesis by (intro conjI)
qed

text \<open>
  The claim as stated speaks of the full range 000000 to 999999; no call issues 000000.
\<close>

theorem code_000000_never_issued_counterexample:
  "\<not> (\<exists>H en self tbl self' tbl'.
        generate_verification_code H en self tbl = Inr (self', tbl') \<and>
        verification_code self' = Some ''000000'')"
proof
  assume "\<exists>H en self tbl self' tbl'.
        generate_verification_code H en self tbl = Inr (self', tbl') \<and>
        verification_code self' = Some ''000000''"
  then obtain H en self tbl self' tbl'
    where g: "generate_verification_code H en self tbl = Inr (self', tbl')"
      and z: "verification_code self' = Some ''000000''" by blast
  from generate_code_value [OF g] z
  have "py_str (randint 100000 999999 (code_draw en)) = ''000000''" by simp
  moreover have "hd (py_str (randint 100000 999999 (code_draw en))) \<noteq> CHR ''0''"
    using randint_code_range [of "code_draw en"] code_shape by blast
  ultimately show False by simp
qed

subsection \<open>What \<^verbatim>\<open>AppUser.save\<close> stores as password\<close>

text \<open>
  C7 (as amended). With the PBKDF2 hasher, a successful \<^verbatim>\<open>AppUser.save\<close> persists a
  record whose password starts with \<^verbatim>\<open>pbkdf2_sha256$\<close>. A value that does not start
  with this prefix is replaced by \<^verbatim>\<open>make_password\<close> of it, which differs from the
  incoming value and verifies it; a value that already starts with the prefix is
  persisted as it is.
\<close>

theorem AppUser_save_hashes:
  assumes "pbkdf2_hasher H" and "AppUser_save H en self tbl = Inr (self', tbl')"
  shows "startswith (password self') ''pbkdf2_sha256$'' \<and> self' \<in> set tbl' \<and>
    (\<not> startswith (password self) ''pbkdf2_sha256$'' \<longrightarrow>
       password self' = make_password H (salt_save en) (unusable_suffix en) (Some (password self)) \<and>
       password self' \<noteq> password self \<and>
       hashers_check_password H (Some (password self)) (password self') = Inr True) \<and>
    (startswith (password self) ''pbkdf2_sha256$'' \<longrightarrow> password self' = password self)"
proof (cases "startswith (password self) ''pbkdf2_sha256$''")
  case True
  with assms(2) have "Model_save self tbl = Inr (self', tbl')"
    by (simp add: AppUser_save_def)
  from Model_save_member [OF this] have "self' \<in> set tbl'" "password self' = password self"
    by (auto, metis app_user.select_convs(5) app_user.surjective app_user.update_convs(1))
  with True show ?thesis by simp
next
  case False
  let ?h = "hasher_encode H (password self) (salt_save en)"
  from False assms(2) have "Model_save (self\<lparr>password := ?h\<rparr>) tbl = Inr (self', tbl')"
    by (simp add: AppUser_save_def make_password_def)
  from Model_save_member [OF this] have m: "self' \<in> set tbl'" and p: "password self' = ?h"
    by (auto, metis app_user.select_convs(5) app_user.surjective app_user.update_convs(1,5))
  from assms(1) have pre: "startswith ?h ''pbkdf2_sha256$''"
    and ver: "hasher_verify H (password self) ?h = Inr True"
    by (simp_all add: pbkdf2_hasher_def)
  from pre False have "?h \<noteq> password self" by auto
  with m p pre ver False show ?thesis
    by (simp add: make_password_def hashers_check_password_def prefix_not_unusable)
qed

theorem AppUser_save_hashes_witness:
  "pbkdf2_hasher toy_hasher \<and> password user_raw = ''Secret1'' \<and>
   AppUser_save toy_hasher env_ok user_raw []
     = Inr (user_raw\<lparr>pk := Some 1, password := ''pbkdf2_sha256$s4lt2$Secret1''\<rparr>,
            [user_raw\<lparr>pk := Some 1, password := ''pbkdf2_sha256$s4lt2$Secret1''\<rparr>]) \<and>
   hashers_check_password toy_hasher (Some ''Secret1'') ''pbkdf2_sha256$s4lt2$Secret1''
     = Inr True"
proof -
  have s: "AppUser_save toy_hasher env_ok user_raw []
     = Inr (user_raw\<lparr>pk := Some 1, password := ''pbkdf2_sha256$s4lt2$Secret1''\<rparr>,
            [user_raw\<lparr>pk := Some 1, password := ''pbkdf2_sha256$s4lt2$Secret1''\<rparr>])"
    by (simp add: user_raw_def AppUser_save_def Model_save_def next_pk_def startswith_def
        make_password_def toy_hasher_def env_ok_def Let_def)
  from AppUser_save_hashes [OF toy_hasher_ok s] s toy_hasher_ok show ?thesis
    by (simp add: user_raw_def startswith_def make_password_def toy_hasher_def env_ok_def)
qed

text \<open>
  The claim as stated fails for a value that is not a hash but starts with the prefix:
  it is stored as it came in.
\<close>

theorem AppUser_save_plaintext_counterexample:
  "password user_plain = ''pbkdf2_sha256$hunter2'' \<and>
   AppUser_save toy_hasher env_ok user_plain []
     = Inr (user_plain\<lparr>pk := Some 1\<rparr>, [user_plain\<lparr>pk := Some 1\<rparr>]) \<and>
   password (user_plain\<lparr>pk := Some 1\<rparr>) = ''pbkdf2_sha256$hunter2''"
  by (simp add: user_plain_def user_raw_def AppUser_save_def Model_save_def next_pk_def
      startswith_def Let_def)


subsection \<open>The reset keys of the session\<close>

text \<open>
  From an empty session, whatever requests a browser sends to whatever views, the
  session never holds \<^verbatim>\<open>verified_reset\<close> without holding \<^verbatim>\<open>reset_email\<close>. The flag is
  paired with the presence of \<^verbatim>\<open>reset_email\<close> only: \<^verbatim>\<open>forgot_password\<close> never touches it.
\<close>

lemma verified_reset_has_reset_email:
  assumes "session w = empty_session"
  shows "verified_reset (session (run H G rs w)) \<noteq> None \<longrightarrow>
         reset_email (session (run H G rs w)) \<noteq> None"
proof -
  have "reset_pair_ok (session w)"
    by (simp add: assms reset_pair_ok_def empty_session_def)
  then have "reset_pair_ok (session (run H G rs w))" by (rule run_reset_pair)
  then show ?thesis by (simp add: reset_pair_ok_def)
qed

lemma forgot_password_keeps_verified_reset:
  "verified_reset (session (snd (forgot_password H en req w))) = verified_reset (session w)"
  by (auto simp: forgot_password_def dest!: send_mail_session
      split: sum.splits error.splits prod.splits)

lemma takeover_run_result:
  "run toy_hasher globals_unloaded takeover_run world_ana_bob
     = \<lparr>table = [user_ana, user_bob\<lparr>verification_code := Some ''100023''\<rparr>],
        session = empty_session\<lparr>reset_email := Some ''bob@x.com'',
                    verified_reset := Some True\<rparr>,
        outbox = [code_mail ResetCodeMail user_ana,
                  code_mail ResetCodeMail (user_bob\<lparr>verification_code := Some ''100023''\<rparr>)]\<rparr>"
  by (simp add: takeover_run_def world_ana_bob_def user_ana_def user_bob_def post_request_def
      forgot_password_def verify_reset_code_def objects_get_def email_is_def code_is_def
      generate_verification_code_def AppUser_save_def Model_save_def startswith_def
      send_mail_def bad_header_def has_line_break_def code_mail_def code_382913 code_23
      Let_def falsy_def empty_session_def env_ok_def env_bob_def)

text \<open>
  C8. Ana and Bob are registered. A browser asks for a reset of Ana's password, submits
  the code mailed to Ana, and asks for a reset of Bob's password. The session then holds
  \<^verbatim>\<open>verified_reset = True\<close> with \<^verbatim>\<open>reset_email\<close> Bob's address, although the code mailed
  to Bob (100023, still on his row) was never submitted: the \<^verbatim>\<open>reset_email\<close> that goes
  with the flag is not the one the flag was earned for. The next request replaces Bob's
  password.
\<close>

theorem verified_reset_kept_for_other_email:
  "session (run toy_hasher globals_unloaded takeover_run world_ana_bob)
     = empty_session\<lparr>reset_email := Some ''bob@x.com'', verified_reset := Some True\<rparr> \<and>
   table (run toy_hasher globals_unloaded takeover_run world_ana_bob)
     = [user_ana, user_bob\<lparr>verification_code := Some ''100023''\<rparr>] \<and>
   table (run toy_hasher globals_unloaded
            (takeover_run @ [(ResetPassword, env_ok, req_reset_owned)]) world_ana_bob)
     = [user_ana, user_bob\<lparr>password := ''pbkdf2_sha256$s4lt$Owned3'',
                    verification_code := None\<rparr>]"
proof -
  have split: "run H G (xs @ ys) w = run H G ys (run H G xs w)" for H G xs ys w
    by (induction xs arbitrary: w) auto
  have last: "table (snd (reset_password toy_hasher env_ok req_reset_owned
        \<lparr>table = [user_ana, user_bob\<lparr>verification_code := Some ''100023''\<rparr>],
         session = empty_session\<lparr>reset_email := Some ''bob@x.com'',
                     verified_reset := Some True\<rparr>,
         outbox = [code_mail ResetCodeMail user_ana,
                   code_mail ResetCodeMail
                     (user_bob\<lparr>verification_code := Some ''100023''\<rparr>)]\<rparr>))
     = [user_ana, user_bob\<lparr>password := ''pbkdf2_sha256$s4lt$Owned3'',
                    verification_code := None\<rparr>]"
    by (simp add: req_reset_owned_def user_ana_def user_bob_def post_request_def
        reset_password_def objects_get_def email_is_def make_password_def toy_hasher_def
        AppUser_save_def Model_save_def startswith_def Let_def falsy_def falsy_flag_def
        empty_session_def env_ok_def)
  show ?thesis by (simp add: split takeover_run_result last)
qed

subsection \<open>Using a code a second time\<close>

lemma login_run_result:
  "run toy_hasher globals_unloaded login_run world_empty = world_ana_logged_in"
  by (simp add: login_run_def world_empty_def world_ana_logged_in_def user_ana_def
      code_mail_ana_def req_register_ana_def req_login_ana_def
      post_request_def register_def login_view_def verify_code_def objects_get_def
      objects_exists_def email_is_def code_is_def falsy_def make_password_def toy_hasher_def
      AppUser_check_password_def hashers_check_password_def is_password_usable_def
      generate_verification_code_def AppUser_save_def Model_save_def next_pk_def startswith_def
      send_mail_def bad_header_def has_line_break_def code_mail_def code_382913 Let_def
      empty_session_def env_ok_def)

text \<open>
  C5. The scenario of the specification, run from an empty table and an empty session:
  Ana registers, logs in, receives the code 482913 and submits it; the login flow is
  complete. The same code, submitted again, is accepted again: the login flow leaves the
  stored code in place, where the reset flow clears it.
\<close>

theorem login_code_accepted_twice:
  "run toy_hasher globals_unloaded login_run world_empty = world_ana_logged_in \<and>
   authenticated_user (session world_ana_logged_in) = Some ''ana@x.com'' \<and>
   verification_code user_ana = Some ''482913'' \<and>
   verify_code (post_request [(''code'', ''482913'')]) world_ana_logged_in
     = (Inr (Redirect ''home''), world_ana_logged_in)"
  by (simp add: login_run_result)
     (simp add: world_ana_logged_in_def user_ana_def post_request_def verify_code_def
        objects_get_def email_is_def code_is_def falsy_def Let_def empty_session_def)

subsection \<open>Registration followed by login\<close>




subsection \<open>The password after a reset\<close>

text \<open>
  C3. With the PBKDF2 hasher, a well-formed table, a registered user \<open>u\<close> and a session
  with \<^verbatim>\<open>reset_email\<close> the (non-empty) email of \<open>u\<close> and \<^verbatim>\<open>verified_reset = True\<close>: a POST
  to \<^verbatim>\<open>reset_password\<close> with the password \<open>new\<close> redirects to \<^verbatim>\<open>login\<close>; the row found
  under the email afterwards accepts \<open>new\<close>, rejects every other password \<open>old\<close>, and has
  no verification code; \<^verbatim>\<open>reset_email\<close> and \<^verbatim>\<open>verified_reset\<close> are gone from the session.
\<close>

theorem reset_password_changes_password:
  assumes H: "pbkdf2_hasher H"
    and wf: "wf_table (table w)" and u: "u \<in> set (table w)"
    and s: "reset_email (session w) = Some (email u)" "email u \<noteq> []"
      "verified_reset (session w) = Some True"
    and rq: "req_method req = ''POST''" "req_POST req ''password'' = Some new"
    and old: "old \<noteq> new"
    and u': "u' = u\<lparr>password := hasher_encode H new (salt_view en), verification_code := None\<rparr>"
    and w': "w' = w\<lparr>table := map (\<lambda>r. if pk r = pk u then u' else r) (table w),
                   session := (session w)\<lparr>reset_email := None, verified_reset := None\<rparr>\<rparr>"
  shows "reset_password H en req w = (Inr (Redirect ''login''), w') \<and>
    objects_get (email_is (Some (email u))) (table w') = Inr u' \<and>
    AppUser_check_password H u' (Some new) = Inr True \<and>
    AppUser_check_password H u' (Some old) = Inr False \<and>
    verification_code u' = None \<and>
    reset_email (session w') = None \<and> verified_reset (session w') = None"
proof -
  let ?h = "hasher_encode H new (salt_view en)"
  from H have pre: "startswith ?h ''pbkdf2_sha256$''"
    and ver: "\<And>q. hasher_verify H q ?h = Inr (q = new)"
    by (simp_all add: pbkdf2_hasher_def)
  have eu: "email u' = email u" and ku: "pk u' = pk u" and pu: "password u' = ?h"
    by (simp_all add: u')
  have save: "AppUser_save H en u' (table w)
      = Inr (u', map (\<lambda>r. if pk r = pk u then u' else r) (table w))"
    using pre Model_save_update [OF wf u eu ku] by (simp add: AppUser_save_def pu)
  have run: "reset_password H en req w = (Inr (Redirect ''login''), w')"
    using s rq save
    by (simp add: reset_password_def Let_def falsy_def falsy_flag_def get_by_email [OF wf u]
        make_password_def u' [symmetric] w')
  from update_row_wf [OF wf u eu ku]
  have "objects_get (email_is (Some (email u'))) (table w') = Inr u'"
    by (intro get_by_email) (simp_all add: w')
  then have get: "objects_get (email_is (Some (email u))) (table w') = Inr u'"
    by (simp add: eu)
  have chk: "AppUser_check_password H u' (Some q) = Inr (q = new)" for q
    using pre ver
    by (simp add: AppUser_check_password_def hashers_check_password_def prefix_not_unusable pu)
  from run get chk old show ?thesis by (simp add: u' w')
qed

theorem reset_password_changes_password_witness:
  "pbkdf2_hasher toy_hasher \<and> wf_table (table world_ana_reset) \<and>
   AppUser_check_password toy_hasher user_ana (Some ''Secret1'') = Inr True \<and>
   reset_password toy_hasher env_ok (post_request [(''password'', ''Nueva2'')]) world_ana_reset
     = (Inr (Redirect ''login''), world_ana\<lparr>table := [user_ana_new]\<rparr>) \<and>
   AppUser_check_password toy_hasher user_ana_new (Some ''Nueva2'') = Inr True \<and>
   AppUser_check_password toy_hasher user_ana_new (Some ''Secret1'') = Inr False \<and>
   verification_code user_ana_new = None"
proof -
  have wf: "wf_table (table world_ana_reset)"
    by (simp add: wf_table_def world_ana_reset_def world_ana_def user_ana_def)
  have u: "user_ana \<in> set (table world_ana_reset)"
    by (simp add: world_ana_reset_def world_ana_def)
  have s: "reset_email (session world_ana_reset) = Some (email user_ana)" "email user_ana \<noteq> []"
    "verified_reset (session world_ana_reset) = Some True"
    by (simp_all add: world_ana_reset_def world_ana_def user_ana_def)
  have rq: "req_method (post_request [(''password'', ''Nueva2'')]) = ''POST''"
    "req_POST (post_request [(''password'', ''Nueva2'')]) ''password'' = Some ''Nueva2''"
    by (simp_all add: post_request_def)
  have old: "''Secret1'' \<noteq> ''Nueva2''" by simp
  have u': "user_ana_new = user_ana\<lparr>password :=
      hasher_encode toy_hasher ''Nueva2'' (salt_view env_ok), verification_code := None\<rparr>"
    by (simp add: user_ana_new_def toy_hasher_def env_ok_def)
  have w': "world_ana\<lparr>table := [user_ana_new]\<rparr>
      = world_ana_reset\<lparr>table := map (\<lambda>r. if pk r = pk user_ana then user_ana_new else r)
            (table world_ana_reset),
          session := (session world_ana_reset)\<lparr>reset_email := None, verified_reset := None\<rparr>\<rparr>"
    by (simp add: world_ana_reset_def world_ana_def empty_session_def)
  have before: "AppUser_check_password toy_hasher user_ana (Some ''Secret1'') = Inr True"
    by (simp add: AppUser_check_password_def hashers_check_password_def is_password_usable_def
        startswith_def toy_hasher_def user_ana_def)
  from reset_password_changes_password [OF toy_hasher_ok wf u s rq old u' w'] wf before
  show ?thesis by (simp add: toy_hasher_ok user_ana_new_def)
qed

end
